theory Spec2Isabelle
  imports Complex_Main
begin

section \<open>pojopoly: the dispatch registry and its resolver\<close>

text \<open>
  The library keeps one process-wide table, \<^verbatim>\<open>ProtocolState.implMap\<close>, from protocol keys
  (symbols) to sub-tables from subtype ids to implementation classes. Three functions
  touch it: \<^verbatim>\<open>registerImpl\<close> (internal), the closure returned by
  \<^verbatim>\<open>generateRegisterImpl\<close>, and \<^verbatim>\<open>getImpl\<close>. They are embedded below as functions on
  an explicit state; a \<^verbatim>\<open>throw\<close> is the \<open>Inl\<close> branch of the result, paired with the
  state at the moment of the throw.
\<close>

subsection \<open>JavaScript values\<close>

text \<open>
  A number is modelled by its mathematical value. Negative zero is identified with zero:
  both are falsy, and a \<^verbatim>\<open>Map\<close> compares keys with SameValueZero, under which they are
  the same key. \<open>NaN\<close> is a single value, equal to itself as a \<^verbatim>\<open>Map\<close> key. So equality
  of \<open>js_number\<close> is SameValueZero.
\<close>

datatype js_number = NaN | PosInfinity | NegInfinity | Finite rat

text \<open>An object is held by reference; \<open>ref\<close> is its address in the heap.\<close>

type_synonym ref = nat

text \<open>
  The values a property or a static field can hold. \<open>JSBuiltin\<close> is an object or function
  of the engine, by name, such as \<^verbatim>\<open>Object\<close> or \<^verbatim>\<open>Object.prototype.toString\<close>. Symbols
  and bigints do not occur as subtype ids in the library and are left out.
\<close>

datatype js_value =
    JSUndefined
  | JSNull
  | JSBoolean bool
  | JSNumber js_number
  | JSString string
  | JSObject ref
  | JSBuiltin string

text \<open>\<^verbatim>\<open>type ProtocolKey = symbol\<close>: an identity and the description given at creation.\<close>

datatype symbol = Symbol nat string

type_synonym ProtocolKey = symbol

text \<open>
  \<^verbatim>\<open>type SubTypingKey = string | number\<close>, used only as a property name. A numeric key
  names the property spelled by its decimal string, so a property name is a string.
\<close>

type_synonym SubTypingKey = string

text \<open>\<^verbatim>\<open>type SubTypeId = string | number\<close>; at run time any value can stand there.\<close>

type_synonym SubTypeId = js_value

text \<open>
  A plain record, as an object literal makes it: its own properties. Its prototype is
  \<^verbatim>\<open>Object.prototype\<close>.
\<close>

type_synonym js_object = "string \<rightharpoonup> js_value"

text \<open>
  The properties of \<^verbatim>\<open>Object.prototype\<close>, which every plain record inherits: those of the
  language standard and its annex for web-compatible engines. Reading \<^verbatim>\<open>__proto__\<close> on
  a plain record gives \<^verbatim>\<open>Object.prototype\<close> itself. (A program that adds properties to
  \<^verbatim>\<open>Object.prototype\<close> is not modelled.)
\<close>

definition Object_prototype :: js_object where
  "Object_prototype =
     map_of
       [(''constructor'', JSBuiltin ''Object''),
        (''hasOwnProperty'', JSBuiltin ''Object.prototype.hasOwnProperty''),
        (''isPrototypeOf'', JSBuiltin ''Object.prototype.isPrototypeOf''),
        (''propertyIsEnumerable'', JSBuiltin ''Object.prototype.propertyIsEnumerable''),
        (''toLocaleString'', JSBuiltin ''Object.prototype.toLocaleString''),
        (''toString'', JSBuiltin ''Object.prototype.toString''),
        (''valueOf'', JSBuiltin ''Object.prototype.valueOf''),
        (''__proto__'', JSBuiltin ''Object.prototype''),
        (''__defineGetter__'', JSBuiltin ''Object.prototype.__defineGetter__''),
        (''__defineSetter__'', JSBuiltin ''Object.prototype.__defineSetter__''),
        (''__lookupGetter__'', JSBuiltin ''Object.prototype.__lookupGetter__''),
        (''__lookupSetter__'', JSBuiltin ''Object.prototype.__lookupSetter__'')]"

text \<open>
  \<^verbatim>\<open>obj[key]\<close> on a plain record: the value of the record's own property; without one,
  the value of the property inherited from \<^verbatim>\<open>Object.prototype\<close>; \<^verbatim>\<open>undefined\<close> when there
  is neither.
\<close>

definition js_get :: "js_object \<Rightarrow> string \<Rightarrow> js_value" where
  "js_get obj key =
     (case obj key of
        Some x \<Rightarrow> x
      | None \<Rightarrow> (case Object_prototype key of Some x \<Rightarrow> x | None \<Rightarrow> JSUndefined))"

text \<open>\<^verbatim>\<open>!x\<close>: the falsy values are undefined, null, false, 0, NaN and the empty string.\<close>

fun js_not :: "js_value \<Rightarrow> bool" where
  "js_not JSUndefined = True"
| "js_not JSNull = True"
| "js_not (JSBoolean b) = (\<not> b)"
| "js_not (JSNumber n) = (n = Finite 0 \<or> n = NaN)"
| "js_not (JSString s) = (s = [])"
| "js_not (JSObject r) = False"
| "js_not (JSBuiltin b) = False"

text \<open>
  \<^verbatim>\<open>x.toString()\<close> can be called on every value but \<^verbatim>\<open>undefined\<close> and \<^verbatim>\<open>null\<close>, where
  reading the property \<^verbatim>\<open>toString\<close> throws a \<^verbatim>\<open>TypeError\<close>. An object is taken to
  inherit \<^verbatim>\<open>toString\<close> from \<^verbatim>\<open>Object.prototype\<close>, as plain records and arrays do; an
  object made without a prototype, or one that hides \<^verbatim>\<open>toString\<close>, is not modelled as a
  discriminant.
\<close>

fun has_toString :: "js_value \<Rightarrow> bool" where
  "has_toString JSUndefined = False"
| "has_toString JSNull = False"
| "has_toString x = True"

subsection \<open>Errors\<close>

text \<open>
  Each constructor stands for one \<^verbatim>\<open>throw\<close> of the source and carries the value
  interpolated into its message:
  \<^item> \<open>ProtocolNotFound k\<close> is \<^verbatim>\<open>new Error(`Protocol <${k.toString()}> not found`)\<close>;
  \<^item> \<open>ImplementationNotFound x\<close> is
    \<^verbatim>\<open>new Error(`Implementation <${x.toString()}> not found`)\<close>;
  \<^item> \<open>SubtypeIdMissing\<close> is
    \<^verbatim>\<open>new Error('Implementation class must have static property "subtypeId"')\<close>;
  \<^item> \<open>TypeError_toString x\<close> is the \<^verbatim>\<open>TypeError\<close> of the engine for \<^verbatim>\<open>x.toString()\<close>
    on \<^verbatim>\<open>undefined\<close> or \<^verbatim>\<open>null\<close>;
  \<^item> \<open>Thrown x\<close> is anything else thrown, by the constructor of an implementation class.
\<close>

datatype js_error =
    ProtocolNotFound ProtocolKey
  | ImplementationNotFound SubTypeId
  | SubtypeIdMissing
  | TypeError_toString js_value
  | Thrown js_value

subsection \<open>Implementation classes and instances\<close>

type_synonym js_heap = "ref \<Rightarrow> js_object"

text \<open>
  A class extending \<^verbatim>\<open>ImplBase\<close>, of type
  \<^verbatim>\<open>typeof ImplBase<unknown> & ClassImplements<Impl>\<close>:
  \<^item> its name;
  \<^item> \<open>subtypeId\<close>, the value that reading the static \<^verbatim>\<open>ImplClass.subtypeId\<close> gives:
    \<^verbatim>\<open>undefined\<close> when neither the class nor a class it extends sets one;
  \<^item> \<open>construct\<close>, its constructor, which \<^verbatim>\<open>new (...args: any[]) => Impl\<close> leaves free. Run
    on its argument in a heap, a constructor throws or ends, having called
    \<^verbatim>\<open>super(x)\<close>, with the reference \<open>x\<close> that becomes the instance's \<^verbatim>\<open>v\<close>; either
    way it leaves a heap. A constructor reaches the table only through the exported
    registration functions, which any program can call as well; such calls from inside
    a constructor are not modelled;
  \<^item> its methods, of whatever type \<open>'m\<close> the protocol's interface asks for.
\<close>

record 'm ImplClass =
  className :: string
  subtypeId :: SubTypeId
  construct :: "ref \<Rightarrow> js_heap \<Rightarrow> (js_error + ref) \<times> js_heap"
  methods :: 'm

text \<open>
  \<^verbatim>\<open>constructor(protected readonly v: T) {}\<close>, the constructor of \<^verbatim>\<open>ImplBase\<close>, which a
  class that writes none inherits: it stores its argument and does nothing else.
\<close>

definition ImplBase_constructor :: "ref \<Rightarrow> js_heap \<Rightarrow> (js_error + ref) \<times> js_heap" where
  "ImplBase_constructor v0 h = (Inr v0, h)"

text \<open>
  An instance: its class and the field \<^verbatim>\<open>v\<close> of
  \<^verbatim>\<open>constructor(protected readonly v: T) {}\<close>, a reference to the wrapped record.
\<close>

record 'm ImplBase =
  cls :: "'m ImplClass"
  v :: ref

subsection \<open>State\<close>

type_synonym 'm subtypeMap = "SubTypeId \<rightharpoonup> 'm ImplClass"

text \<open>
  \<open>implMap\<close> is \<^verbatim>\<open>ProtocolState.implMap\<close>; \<open>heap\<close> holds the program's records, so that
  what a function does to them, or leaves alone, can be said.
\<close>

record 'm state =
  implMap :: "ProtocolKey \<rightharpoonup> 'm subtypeMap"
  heap :: js_heap

text \<open>
  \<^verbatim>\<open>new ImplClass(obj)\<close>: the class's own constructor runs on \<open>obj\<close>. When it ends, the
  result is an instance of the class around what the constructor passed on; when it
  throws, so does \<^verbatim>\<open>new\<close>.
\<close>

definition new :: "'m ImplClass \<Rightarrow> ref \<Rightarrow> 'm state \<Rightarrow> (js_error + 'm ImplBase) \<times> 'm state" where
  "new ImplClass obj st =
     (case construct ImplClass obj (heap st) of
        (Inl e, h) \<Rightarrow> (Inl e, st\<lparr>heap := h\<rparr>)
      | (Inr x, h) \<Rightarrow> (Inr \<lparr>cls = ImplClass, v = x\<rparr>, st\<lparr>heap := h\<rparr>))"

text \<open>\<^verbatim>\<open>implMap = new Map()\<close>: the table is empty when the module is loaded.\<close>

definition initial :: "js_heap \<Rightarrow> 'm state" where
  "initial h = \<lparr>implMap = Map.empty, heap = h\<rparr>"

subsection \<open>The three functions\<close>

text \<open>
  \<^verbatim>\<open>registerImpl\<close>. A \<^verbatim>\<open>Map\<close> object is truthy, so \<^verbatim>\<open>!subtypeMap\<close> holds exactly when
  \<^verbatim>\<open>get\<close> found nothing. The function has no \<^verbatim>\<open>throw\<close> and \<^verbatim>\<open>Map.get\<close>, \<^verbatim>\<open>Map.set\<close> and
  \<^verbatim>\<open>new Map()\<close> do not fail, so it is a function from state to state; it returns
  \<^verbatim>\<open>void\<close>.
\<close>

definition registerImpl ::
  "ProtocolKey \<Rightarrow> SubTypeId \<Rightarrow> 'm ImplClass \<Rightarrow> 'm state \<Rightarrow> 'm state" where
  "registerImpl protocolKey subTypeId impl st =
     (case implMap st protocolKey of
        None \<Rightarrow>
          st\<lparr>implMap := (implMap st)(protocolKey \<mapsto> Map.empty(subTypeId \<mapsto> impl))\<rparr>
      | Some subtypeMap \<Rightarrow>
          st\<lparr>implMap := (implMap st)(protocolKey \<mapsto> subtypeMap(subTypeId \<mapsto> impl))\<rparr>)"

text \<open>
  \<^verbatim>\<open>generateRegisterImpl(protocolKey)\<close> returns a closure over \<open>protocolKey\<close>; partial
  application of the function below is that closure.
\<close>

definition generateRegisterImpl ::
  "ProtocolKey \<Rightarrow> 'm ImplClass \<Rightarrow> 'm state \<Rightarrow> (js_error + unit) \<times> 'm state" where
  "generateRegisterImpl protocolKey impl st =
     (if js_not (subtypeId impl) then (Inl SubtypeIdMissing, st)
      else (Inr (), registerImpl protocolKey (subtypeId impl) impl st))"

text \<open>
  \<^verbatim>\<open>getImpl\<close>. The record is passed by reference. A class is truthy, so \<^verbatim>\<open>!ImplClass\<close>
  holds exactly when the sub-table has no entry for the key. The message of the second
  error is built with \<^verbatim>\<open>subtypeId.toString()\<close>, which throws first when there is nothing
  to call it on. On a hit the function ends with \<^verbatim>\<open>return new ImplClass(obj)\<close>.
\<close>

definition getImpl ::
  "ProtocolKey \<Rightarrow> SubTypingKey \<Rightarrow> ref \<Rightarrow> 'm state \<Rightarrow> (js_error + 'm ImplBase) \<times> 'm state" where
  "getImpl protocolKey subTypingKey obj st =
     (let subtypeId = js_get (heap st obj) subTypingKey in
      case implMap st protocolKey of
        None \<Rightarrow> (Inl (ProtocolNotFound protocolKey), st)
      | Some subtypeMap \<Rightarrow>
          (case subtypeMap subtypeId of
             None \<Rightarrow>
               (if has_toString subtypeId then (Inl (ImplementationNotFound subtypeId), st)
                else (Inl (TypeError_toString subtypeId), st))
           | Some ImplClass \<Rightarrow> new ImplClass obj st))"

subsection \<open>Programs using the library\<close>

text \<open>
  What a program can do to the state: register through a generated registration function
  (\<^verbatim>\<open>registerImpl\<close> itself is not exported), resolve, and create or change its own
  records. A call that throws leaves the state it had reached.
\<close>

datatype 'm call =
    Register ProtocolKey "'m ImplClass"
  | Resolve ProtocolKey SubTypingKey ref
  | Store ref js_object

fun exec :: "'m call \<Rightarrow> 'm state \<Rightarrow> 'm state" where
  "exec (Register protocolKey impl) st = snd (generateRegisterImpl protocolKey impl st)"
| "exec (Resolve protocolKey subTypingKey obj) st = snd (getImpl protocolKey subTypingKey obj st)"
| "exec (Store r obj) st = st\<lparr>heap := (heap st)(r := obj)\<rparr>"

fun run :: "'m call list \<Rightarrow> 'm state \<Rightarrow> 'm state" where
  "run [] st = st"
| "run (c # cs) st = run cs (exec c st)"

text \<open>The entry of the table for a protocol key and a subtype id, if any.\<close>

definition lookup :: "'m state \<Rightarrow> ProtocolKey \<Rightarrow> SubTypeId \<Rightarrow> 'm ImplClass option" where
  "lookup st protocolKey subTypeId =
     (case implMap st protocolKey of None \<Rightarrow> None | Some subtypeMap \<Rightarrow> subtypeMap subTypeId)"

text \<open>
  Whether a call registers under the pair \<open>(protocolKey, subTypeId)\<close>, whatever its
  outcome.
\<close>

fun registers :: "ProtocolKey \<Rightarrow> SubTypeId \<Rightarrow> 'm call \<Rightarrow> bool" where
  "registers protocolKey subTypeId (Register protocolKey' impl) =
     (protocolKey' = protocolKey \<and> subtypeId impl = subTypeId)"
| "registers protocolKey subTypeId (Resolve protocolKey' subTypingKey obj) = False"
| "registers protocolKey subTypeId (Store r obj) = False"

text \<open>Every entry of the table sits under its class's own, truthy, \<^verbatim>\<open>subtypeId\<close>.\<close>

definition keys_declared :: "'m state \<Rightarrow> bool" where
  "keys_declared st \<longleftrightarrow>
     (\<forall>protocolKey subTypeId impl.
        lookup st protocolKey subTypeId = Some impl \<longrightarrow>
          subtypeId impl = subTypeId \<and> \<not> js_not subTypeId)"

subsection \<open>The protocols and classes of the test suite\<close>

text \<open>
  \<^verbatim>\<open>test/support/listable.ts\<close>, \<^verbatim>\<open>printable.ts\<close>, \<^verbatim>\<open>array-obj.ts\<close>, \<^verbatim>\<open>record-obj.ts\<close> and
  \<^verbatim>\<open>unregistered-obj.ts\<close>. A class's methods are given by their names. None of the
  classes writes a constructor.
\<close>

definition listableKey :: ProtocolKey where
  "listableKey = Symbol 0 ''MyApp.Listable''"

definition printableKey :: ProtocolKey where
  "printableKey = Symbol 1 ''MyApp.Printable''"

definition sKey :: SubTypingKey where
  "sKey = ''type''"

definition ImplListableForArrayObj :: "string list ImplClass" where
  "ImplListableForArrayObj =
     \<lparr>className = ''ImplListableForArrayObj'', subtypeId = JSString ''array-obj'',
      construct = ImplBase_constructor, methods = [''list'']\<rparr>"

definition ImplPrintableForArrayObj :: "string list ImplClass" where
  "ImplPrintableForArrayObj =
     \<lparr>className = ''ImplPrintableForArrayObj'', subtypeId = JSString ''array-obj'',
      construct = ImplBase_constructor, methods = [''print'']\<rparr>"

definition ImplListableForRecordObj :: "string list ImplClass" where
  "ImplListableForRecordObj =
     \<lparr>className = ''ImplListableForRecordObj'', subtypeId = JSString ''record-obj'',
      construct = ImplBase_constructor, methods = [''list'']\<rparr>"

text \<open>
  A class the registration function accepts as well, with a constructor of its own:
  \<^verbatim>\<open>constructor(v) { super({...v}); }\<close>. The copy is a new object; \<open>fresh\<close> is the address
  it is allocated at.
\<close>

definition copying_constructor :: "ref \<Rightarrow> ref \<Rightarrow> js_heap \<Rightarrow> (js_error + ref) \<times> js_heap" where
  "copying_constructor fresh v0 h = (Inr fresh, h(fresh := h v0))"

definition ImplListableForArrayObjCopy :: "string list ImplClass" where
  "ImplListableForArrayObjCopy =
     \<lparr>className = ''ImplListableForArrayObjCopy'', subtypeId = JSString ''array-obj'',
      construct = copying_constructor 5, methods = [''list'']\<rparr>"

text \<open>
  The records of the tests: \<^verbatim>\<open>ArrayObj.create([1, 2, 3])\<close> at address 0 (its array at
  address 1), \<^verbatim>\<open>UnregisteredObj.create()\<close> at address 2, and at address 3 a record
  \<^verbatim>\<open>{ary: ...}\<close> with no \<^verbatim>\<open>type\<close> at all.
\<close>

definition testHeap :: js_heap where
  "testHeap =
     (\<lambda>r. Map.empty)
       (0 := [''type'' \<mapsto> JSString ''array-obj'', ''ary'' \<mapsto> JSObject 1],
        1 := [''0'' \<mapsto> JSNumber (Finite 1), ''1'' \<mapsto> JSNumber (Finite 2),
              ''2'' \<mapsto> JSNumber (Finite 3)],
        2 := [''type'' \<mapsto> JSString ''unregistered-obj''],
        3 := [''ary'' \<mapsto> JSObject 1])"

text \<open>The registrations made when the test modules are loaded.\<close>

definition loaded :: "string list state" where
  "loaded =
     run [Register listableKey ImplListableForArrayObj,
          Register printableKey ImplPrintableForArrayObj,
          Register listableKey ImplListableForRecordObj]
       (initial testHeap)"

section \<open>Properties\<close>

subsection \<open>The table after a registration\<close>

lemma heap_registerImpl: "heap (registerImpl p s impl st) = heap st"
  by (simp add: registerImpl_def split: option.split)

lemma lookup_registerImpl:
  "lookup (registerImpl p s impl st) p' s' =
     (if p' = p \<and> s' = s then Some impl else lookup st p' s')"
  by (simp add: registerImpl_def lookup_def split: option.split)

lemma implMap_registerImpl_other:
  "p' \<noteq> p \<Longrightarrow> implMap (registerImpl p s impl st) p' = implMap st p'"
  by (simp add: registerImpl_def split: option.split)

lemma implMap_registerImpl_same: "implMap (registerImpl p s impl st) p \<noteq> None"
  by (simp add: registerImpl_def split: option.split)

lemma implMap_registerImpl_mono:
  "implMap st p \<noteq> None \<Longrightarrow> implMap (registerImpl p' s impl st) p \<noteq> None"
  by (cases "p = p'") (simp_all add: implMap_registerImpl_same implMap_registerImpl_other)

lemma lookup_generateRegisterImpl:
  "lookup (snd (generateRegisterImpl p impl st)) p' s' =
     (if \<not> js_not (subtypeId impl) \<and> p' = p \<and> s' = subtypeId impl then Some impl
      else lookup st p' s')"
  by (simp add: generateRegisterImpl_def lookup_registerImpl)

lemma lookup_heap_update: "lookup (st\<lparr>heap := h\<rparr>) p s = lookup st p s"
  by (simp add: lookup_def)

subsection \<open>Resolution\<close>

lemma implMap_new: "implMap (snd (new impl obj st)) = implMap st"
  by (simp add: new_def split: prod.split sum.split)

lemma new_inherited:
  "construct impl = ImplBase_constructor \<Longrightarrow>
   new impl obj st = (Inr \<lparr>cls = impl, v = obj\<rparr>, st)"
  by (simp add: new_def ImplBase_constructor_def)

lemma cls_new: "fst (new impl obj st) = Inr inst \<Longrightarrow> cls inst = impl"
  by (auto simp add: new_def split: prod.splits sum.splits)

lemma implMap_getImpl: "implMap (snd (getImpl p k obj st)) = implMap st"
  by (simp add: getImpl_def Let_def implMap_new split: option.split)

lemma lookup_getImpl: "lookup (snd (getImpl p k obj st)) p' s = lookup st p' s"
  by (simp add: lookup_def implMap_getImpl)

lemma getImpl_found:
  "lookup st p (js_get (heap st obj) k) = Some impl \<Longrightarrow>
   getImpl p k obj st = new impl obj st"
  by (auto simp add: getImpl_def lookup_def Let_def split: option.splits)

lemma getImpl_missed:
  "lookup st p (js_get (heap st obj) k) = None \<Longrightarrow> snd (getImpl p k obj st) = st"
  by (auto simp add: getImpl_def lookup_def Let_def split: option.splits)

text \<open>The outcome depends on the state through one sub-table and the heap only.\<close>

lemma fst_getImpl_cong:
  "implMap st p = implMap st' p \<Longrightarrow> heap st = heap st' \<Longrightarrow>
   fst (getImpl p k obj st) = fst (getImpl p k obj st')"
  by (simp add: getImpl_def Let_def new_def split: option.split prod.split sum.split)

subsection \<open>Runs\<close>

lemma lookup_exec:
  "lookup (exec c st) p s =
     (case c of
        Register p' impl \<Rightarrow>
          if \<not> js_not (subtypeId impl) \<and> p = p' \<and> s = subtypeId impl then Some impl
          else lookup st p s
      | _ \<Rightarrow> lookup st p s)"
  by (cases c) (simp_all add: lookup_generateRegisterImpl lookup_heap_update lookup_getImpl)

lemma lookup_exec_other: "\<not> registers p s c \<Longrightarrow> lookup (exec c st) p s = lookup st p s"
  by (cases c) (auto simp add: lookup_generateRegisterImpl lookup_heap_update lookup_getImpl)

lemma lookup_run_other:
  "\<forall>c \<in> set cs. \<not> registers p s c \<Longrightarrow> lookup (run cs st) p s = lookup st p s"
  by (induction cs arbitrary: st) (simp_all add: lookup_exec_other)

lemma keys_declared_exec: "keys_declared st \<Longrightarrow> keys_declared (exec c st)"
  by (auto simp add: keys_declared_def lookup_exec split: call.splits if_splits)

lemma keys_declared_run: "keys_declared st \<Longrightarrow> keys_declared (run cs st)"
  by (induction cs arbitrary: st) (simp_all add: keys_declared_exec)

lemma keys_declared_initial: "keys_declared (initial h)"
  by (simp add: keys_declared_def initial_def lookup_def)

lemma keys_declared_falsy: "keys_declared st \<Longrightarrow> js_not s \<Longrightarrow> lookup st p s = None"
proof (rule ccontr)
  assume kd: "keys_declared st" and falsy: "js_not s" and "lookup st p s \<noteq> None"
  then obtain impl where "lookup st p s = Some impl"
    by auto
  with kd have "\<not> js_not s"
    unfolding keys_declared_def by blast
  with falsy show False by simp
qed

lemma lookup_exec_mono: "lookup st p s \<noteq> None \<Longrightarrow> lookup (exec c st) p s \<noteq> None"
  by (cases c) (auto simp add: lookup_generateRegisterImpl lookup_heap_update lookup_getImpl)

lemma lookup_run_mono: "lookup st p s \<noteq> None \<Longrightarrow> lookup (run cs st) p s \<noteq> None"
proof (induction cs arbitrary: st)
  case Nil
  then show ?case by simp
next
  case (Cons c cs)
  from Cons.prems have "lookup (exec c st) p s \<noteq> None"
    by (rule lookup_exec_mono)
  then have "lookup (run cs (exec c st)) p s \<noteq> None"
    by (rule Cons.IH)
  then show ?case by simp
qed

lemma implMap_exec_mono: "implMap st p \<noteq> None \<Longrightarrow> implMap (exec c st) p \<noteq> None"
proof (cases c)
  case (Register p' impl)
  assume present: "implMap st p \<noteq> None"
  then have "implMap (registerImpl p' (subtypeId impl) impl st) p \<noteq> None"
    by (rule implMap_registerImpl_mono)
  with present Register show ?thesis
    by (simp add: generateRegisterImpl_def)
next
  case (Resolve p' k obj)
  assume "implMap st p \<noteq> None"
  with Resolve show ?thesis by (simp add: implMap_getImpl)
next
  case (Store r obj)
  assume "implMap st p \<noteq> None"
  with Store show ?thesis by simp
qed

lemma implMap_run_mono: "implMap st p \<noteq> None \<Longrightarrow> implMap (run cs st) p \<noteq> None"
proof (induction cs arbitrary: st)
  case Nil
  then show ?case by simp
next
  case (Cons c cs)
  from Cons.prems have "implMap (exec c st) p \<noteq> None"
    by (rule implMap_exec_mono)
  then have "implMap (run cs (exec c st)) p \<noteq> None"
    by (rule Cons.IH)
  then show ?case by simp
qed

subsection \<open>Evaluating the examples\<close>

lemmas ex_defs = listableKey_def printableKey_def sKey_def ImplListableForArrayObj_def
  ImplPrintableForArrayObj_def ImplListableForRecordObj_def testHeap_def loaded_def
  initial_def generateRegisterImpl_def registerImpl_def lookup_def js_get_def
  Object_prototype_def getImpl_def new_def ImplBase_constructor_def Let_def

section \<open>The claims\<close>

text \<open>
  C1 (register, then resolve). Registering a class under a protocol key and a subtype id
  puts it in the table under that pair, through \<open>registerImpl\<close> and, when the class's
  own \<open>subtypeId\<close> is truthy, through the generated registration function, which then
  returns normally. Whenever a class is in the table under a pair, \<open>getImpl\<close> called with
  that protocol key, the field name and a record whose field holds exactly that subtype id
  is \<open>new impl(obj)\<close>: the registered class's constructor run on the record. What it
  returns is an instance of that class, methods included. For a class that inherits the
  constructor of \<open>ImplBase\<close> the instance's \<open>v\<close> is the record and the state is as it was.
\<close>

theorem register_then_resolve:
  "lookup (registerImpl protocolKey subTypeId impl st) protocolKey subTypeId = Some impl \<and>
   (\<not> js_not (subtypeId impl) \<longrightarrow>
      fst (generateRegisterImpl protocolKey impl st) = Inr () \<and>
      lookup (snd (generateRegisterImpl protocolKey impl st)) protocolKey (subtypeId impl)
        = Some impl) \<and>
   (lookup st' protocolKey subTypeId = Some impl \<and>
    js_get (heap st' obj) subTypingKey = subTypeId \<longrightarrow>
      getImpl protocolKey subTypingKey obj st' = new impl obj st' \<and>
      (fst (getImpl protocolKey subTypingKey obj st') = Inr inst \<longrightarrow> cls inst = impl) \<and>
      (construct impl = ImplBase_constructor \<longrightarrow>
         getImpl protocolKey subTypingKey obj st' = (Inr \<lparr>cls = impl, v = obj\<rparr>, st')))"
proof (intro conjI impI)
  show "lookup (registerImpl protocolKey subTypeId impl st) protocolKey subTypeId = Some impl"
    by (simp add: lookup_registerImpl)
next
  assume "\<not> js_not (subtypeId impl)"
  then show "fst (generateRegisterImpl protocolKey impl st) = Inr ()"
    by (simp add: generateRegisterImpl_def)
next
  assume "\<not> js_not (subtypeId impl)"
  then show
    "lookup (snd (generateRegisterImpl protocolKey impl st)) protocolKey (subtypeId impl)
       = Some impl"
    by (simp add: lookup_generateRegisterImpl)
next
  assume "lookup st' protocolKey subTypeId = Some impl \<and>
    js_get (heap st' obj) subTypingKey = subTypeId"
  then have "lookup st' protocolKey (js_get (heap st' obj) subTypingKey) = Some impl"
    by simp
  then have hit: "getImpl protocolKey subTypingKey obj st' = new impl obj st'"
    by (rule getImpl_found)
  then show "getImpl protocolKey subTypingKey obj st' = new impl obj st'" .
  {
    assume "fst (getImpl protocolKey subTypingKey obj st') = Inr inst"
    with hit have "fst (new impl obj st') = Inr inst"
      by simp
    then show "cls inst = impl"
      by (rule cls_new)
  }
  {
    assume "construct impl = ImplBase_constructor"
    then have "new impl obj st' = (Inr \<lparr>cls = impl, v = obj\<rparr>, st')"
      by (rule new_inherited)
    with hit show "getImpl protocolKey subTypingKey obj st' = (Inr \<lparr>cls = impl, v = obj\<rparr>, st')"
      by simp
  }
qed

text \<open>
  The first test of the suite: after the modules are loaded, resolving \<open>Listable\<close> on
  \<open>ArrayObj.create([1, 2, 3])\<close> gives an instance of \<open>ImplListableForArrayObj\<close> around it.
\<close>

theorem register_then_resolve_witness:
  "\<not> js_not (subtypeId ImplListableForArrayObj) \<and>
   lookup loaded listableKey (JSString ''array-obj'') = Some ImplListableForArrayObj \<and>
   js_get (heap loaded 0) sKey = JSString ''array-obj'' \<and>
   construct ImplListableForArrayObj = ImplBase_constructor \<and>
   fst (getImpl listableKey sKey 0 loaded) = Inr \<lparr>cls = ImplListableForArrayObj, v = 0\<rparr> \<and>
   cls \<lparr>cls = ImplListableForArrayObj, v = 0\<rparr> = ImplListableForArrayObj \<and>
   getImpl listableKey sKey 0 loaded = new ImplListableForArrayObj 0 loaded \<and>
   getImpl listableKey sKey 0 loaded = (Inr \<lparr>cls = ImplListableForArrayObj, v = 0\<rparr>, loaded)"
proof -
  have a: "\<not> js_not (subtypeId ImplListableForArrayObj)"
    by (simp add: ImplListableForArrayObj_def)
  have b: "lookup loaded listableKey (JSString ''array-obj'') = Some ImplListableForArrayObj"
    by (simp add: ex_defs)
  have c: "js_get (heap loaded 0) sKey = JSString ''array-obj''"
    by (simp add: ex_defs)
  have d: "construct ImplListableForArrayObj = ImplBase_constructor"
    by (simp add: ImplListableForArrayObj_def)
  note inst =
    register_then_resolve [of listableKey "JSString ''array-obj''" ImplListableForArrayObj
      "initial testHeap" loaded 0 sKey "\<lparr>cls = ImplListableForArrayObj, v = 0\<rparr>"]
  from inst b c have e: "getImpl listableKey sKey 0 loaded = new ImplListableForArrayObj 0 loaded"
    by blast
  from inst b c d
  have f: "getImpl listableKey sKey 0 loaded
      = (Inr \<lparr>cls = ImplListableForArrayObj, v = 0\<rparr>, loaded)"
    by blast
  then have g: "fst (getImpl listableKey sKey 0 loaded)
      = Inr \<lparr>cls = ImplListableForArrayObj, v = 0\<rparr>"
    by simp
  from inst b c g
  have h: "cls \<lparr>cls = ImplListableForArrayObj, v = 0\<rparr> = ImplListableForArrayObj"
    by blast
  from a b c d e f g h show ?thesis by blast
qed

text \<open>
  C2 (the errors of the resolver). When the table has nothing at all for the protocol key,
  \<open>getImpl\<close> throws the "Protocol ... not found" error. When it has a sub-table for the
  key but the sub-table has no class under the record's discriminant, a string or a number,
  \<open>getImpl\<close> throws the "Implementation ... not found" error, which is a different one.
  Both outcomes are throws, \<open>Inl\<close>, never a returned value, and the state is as it was.
\<close>

theorem getImpl_error_contract:
  "(implMap st protocolKey = None \<longrightarrow>
      getImpl protocolKey subTypingKey obj st = (Inl (ProtocolNotFound protocolKey), st)) \<and>
   (implMap st protocolKey = Some subtypeMap \<and>
    js_get (heap st obj) subTypingKey = x \<and>
    ((\<exists>s. x = JSString s) \<or> (\<exists>n. x = JSNumber n)) \<and>
    subtypeMap x = None \<longrightarrow>
      getImpl protocolKey subTypingKey obj st = (Inl (ImplementationNotFound x), st)) \<and>
   ProtocolNotFound protocolKey \<noteq> ImplementationNotFound x"
  by (auto simp add: getImpl_def Let_def)

text \<open>
  Before any module is loaded \<open>Listable\<close> is unknown; after loading, the third test of the
  suite: \<open>UnregisteredObj.create()\<close> has no implementation.
\<close>

theorem getImpl_error_contract_witness:
  "implMap (initial testHeap :: string list state) listableKey = None \<and>
   getImpl listableKey sKey 2 (initial testHeap :: string list state)
     = (Inl (ProtocolNotFound listableKey), initial testHeap) \<and>
   implMap loaded listableKey
     = Some [JSString ''array-obj'' \<mapsto> ImplListableForArrayObj,
             JSString ''record-obj'' \<mapsto> ImplListableForRecordObj] \<and>
   js_get (heap loaded 2) sKey = JSString ''unregistered-obj'' \<and>
   [JSString ''array-obj'' \<mapsto> ImplListableForArrayObj,
    JSString ''record-obj'' \<mapsto> ImplListableForRecordObj] (JSString ''unregistered-obj'') = None \<and>
   getImpl listableKey sKey 2 loaded
     = (Inl (ImplementationNotFound (JSString ''unregistered-obj'')), loaded)"
proof -
  have a: "implMap (initial testHeap :: string list state) listableKey = None"
    by (simp add: initial_def)
  have b: "implMap loaded listableKey
     = Some [JSString ''array-obj'' \<mapsto> ImplListableForArrayObj,
             JSString ''record-obj'' \<mapsto> ImplListableForRecordObj]"
    by (simp add: ex_defs)
  have c: "js_get (heap loaded 2) sKey = JSString ''unregistered-obj''"
    by (simp add: ex_defs)
  have d: "[JSString ''array-obj'' \<mapsto> ImplListableForArrayObj,
    JSString ''record-obj'' \<mapsto> ImplListableForRecordObj] (JSString ''unregistered-obj'') = None"
    by simp
  from a b c d
    getImpl_error_contract [of "initial testHeap :: string list state" listableKey sKey 2]
    getImpl_error_contract [of loaded listableKey sKey 2
      "[JSString ''array-obj'' \<mapsto> ImplListableForArrayObj,
        JSString ''record-obj'' \<mapsto> ImplListableForRecordObj]"
      "JSString ''unregistered-obj''"]
  show ?thesis by simp
qed

text \<open>
  C3 (the last registration wins). Registering \<open>f1\<close> and then \<open>f2\<close> under one pair gives
  the very state that registering \<open>f2\<close> alone gives, through \<open>registerImpl\<close> and through
  the generated registration function, whose second call returns normally. After the two
  registrations and any further calls that do not register under that pair, resolving a
  record whose field holds the subtype id is \<open>new f2(obj)\<close>: an instance of \<open>f2\<close> around
  the record, when \<open>f2\<close> inherits the constructor of \<open>ImplBase\<close>.
\<close>

theorem last_registration_wins:
  "registerImpl protocolKey subTypeId f2 (registerImpl protocolKey subTypeId f1 st)
     = registerImpl protocolKey subTypeId f2 st \<and>
   (subtypeId f1 = subtypeId f2 \<and> \<not> js_not (subtypeId f2) \<longrightarrow>
      generateRegisterImpl protocolKey f2 (snd (generateRegisterImpl protocolKey f1 st))
        = (Inr (), snd (generateRegisterImpl protocolKey f2 st))) \<and>
   ((\<forall>c \<in> set cs. \<not> registers protocolKey subTypeId c) \<and>
    st' = run cs (registerImpl protocolKey subTypeId f2 (registerImpl protocolKey subTypeId f1 st)) \<and>
    js_get (heap st' obj) subTypingKey = subTypeId \<longrightarrow>
      getImpl protocolKey subTypingKey obj st' = new f2 obj st' \<and>
      (construct f2 = ImplBase_constructor \<longrightarrow>
         getImpl protocolKey subTypingKey obj st' = (Inr \<lparr>cls = f2, v = obj\<rparr>, st')))"
proof (intro conjI impI)
  show "registerImpl protocolKey subTypeId f2 (registerImpl protocolKey subTypeId f1 st)
     = registerImpl protocolKey subTypeId f2 st"
    by (simp add: registerImpl_def split: option.split)
next
  assume "subtypeId f1 = subtypeId f2 \<and> \<not> js_not (subtypeId f2)"
  then show "generateRegisterImpl protocolKey f2 (snd (generateRegisterImpl protocolKey f1 st))
        = (Inr (), snd (generateRegisterImpl protocolKey f2 st))"
    by (simp add: generateRegisterImpl_def registerImpl_def split: option.split)
next
  assume h: "(\<forall>c \<in> set cs. \<not> registers protocolKey subTypeId c) \<and>
    st' = run cs (registerImpl protocolKey subTypeId f2 (registerImpl protocolKey subTypeId f1 st)) \<and>
    js_get (heap st' obj) subTypingKey = subTypeId"
  from h have others: "\<forall>c \<in> set cs. \<not> registers protocolKey subTypeId c"
    by blast
  from h have st': "st' = run cs (registerImpl protocolKey subTypeId f2
      (registerImpl protocolKey subTypeId f1 st))"
    by blast
  from h have field: "js_get (heap st' obj) subTypingKey = subTypeId"
    by blast
  from others have "lookup st' protocolKey subTypeId
      = lookup (registerImpl protocolKey subTypeId f2 (registerImpl protocolKey subTypeId f1 st))
          protocolKey subTypeId"
    unfolding st' by (rule lookup_run_other)
  then have "lookup st' protocolKey subTypeId = Some f2"
    by (simp add: lookup_registerImpl)
  then have "lookup st' protocolKey (js_get (heap st' obj) subTypingKey) = Some f2"
    unfolding field .
  then have hit: "getImpl protocolKey subTypingKey obj st' = new f2 obj st'"
    by (rule getImpl_found)
  then show "getImpl protocolKey subTypingKey obj st' = new f2 obj st'" .
  {
    assume "construct f2 = ImplBase_constructor"
    then have "new f2 obj st' = (Inr \<lparr>cls = f2, v = obj\<rparr>, st')"
      by (rule new_inherited)
    with hit show "getImpl protocolKey subTypingKey obj st' = (Inr \<lparr>cls = f2, v = obj\<rparr>, st')"
      by simp
  }
qed

text \<open>
  \<open>ImplPrintableForArrayObj\<close> registered under \<open>Listable\<close> after \<open>ImplListableForArrayObj\<close>:
  both declare \<open>'array-obj'\<close>, and the second takes the place of the first.
\<close>

theorem last_registration_wins_witness:
  "subtypeId ImplListableForArrayObj = subtypeId ImplPrintableForArrayObj \<and>
   \<not> js_not (subtypeId ImplPrintableForArrayObj) \<and>
   construct ImplPrintableForArrayObj = ImplBase_constructor \<and>
   \<not> registers listableKey (JSString ''array-obj'')
       (Register printableKey ImplPrintableForArrayObj) \<and>
   \<not> registers listableKey (JSString ''array-obj'')
       (Register listableKey ImplListableForRecordObj) \<and>
   js_get
     (heap
        (run [Register printableKey ImplPrintableForArrayObj,
              Register listableKey ImplListableForRecordObj]
           (registerImpl listableKey (JSString ''array-obj'') ImplPrintableForArrayObj
              (registerImpl listableKey (JSString ''array-obj'') ImplListableForArrayObj
                 (initial testHeap))))
        0)
     sKey = JSString ''array-obj'' \<and>
   fst (getImpl listableKey sKey 0
          (run [Register printableKey ImplPrintableForArrayObj,
                Register listableKey ImplListableForRecordObj]
             (registerImpl listableKey (JSString ''array-obj'') ImplPrintableForArrayObj
                (registerImpl listableKey (JSString ''array-obj'') ImplListableForArrayObj
                   (initial testHeap)))))
     = Inr \<lparr>cls = ImplPrintableForArrayObj, v = 0\<rparr> \<and>
   generateRegisterImpl listableKey ImplPrintableForArrayObj
     (snd (generateRegisterImpl listableKey ImplListableForArrayObj (initial testHeap)))
     = (Inr (), snd (generateRegisterImpl listableKey ImplPrintableForArrayObj
                       (initial testHeap)))"
proof -
  let ?cs = "[Register printableKey ImplPrintableForArrayObj,
              Register listableKey ImplListableForRecordObj]"
  let ?st = "run ?cs
     (registerImpl listableKey (JSString ''array-obj'') ImplPrintableForArrayObj
        (registerImpl listableKey (JSString ''array-obj'') ImplListableForArrayObj
           (initial testHeap)))"
  have a: "subtypeId ImplListableForArrayObj = subtypeId ImplPrintableForArrayObj"
    by (simp add: ex_defs)
  have b: "\<not> js_not (subtypeId ImplPrintableForArrayObj)"
    by (simp add: ex_defs)
  have c: "\<forall>c \<in> set ?cs. \<not> registers listableKey (JSString ''array-obj'') c"
    by (simp add: ex_defs)
  have d: "js_get (heap ?st 0) sKey = JSString ''array-obj''"
    by (simp add: ex_defs)
  note inst = last_registration_wins [of listableKey "JSString ''array-obj''"
      ImplPrintableForArrayObj ImplListableForArrayObj "initial testHeap" ?cs ?st 0 sKey]
  from inst a b have e: "generateRegisterImpl listableKey ImplPrintableForArrayObj
     (snd (generateRegisterImpl listableKey ImplListableForArrayObj (initial testHeap)))
     = (Inr (), snd (generateRegisterImpl listableKey ImplPrintableForArrayObj
                       (initial testHeap)))"
    by blast
  have inherited: "construct ImplPrintableForArrayObj = ImplBase_constructor"
    by (simp add: ImplPrintableForArrayObj_def)
  from inst c d inherited have "getImpl listableKey sKey 0 ?st
      = (Inr \<lparr>cls = ImplPrintableForArrayObj, v = 0\<rparr>, ?st)"
    by blast
  then have f: "fst (getImpl listableKey sKey 0 ?st) = Inr \<lparr>cls = ImplPrintableForArrayObj, v = 0\<rparr>"
    by (rule arg_cong [where f = fst, THEN trans]) simp
  from c have c1: "\<not> registers listableKey (JSString ''array-obj'')
       (Register printableKey ImplPrintableForArrayObj)"
    and c2: "\<not> registers listableKey (JSString ''array-obj'')
       (Register listableKey ImplListableForRecordObj)"
    by simp_all
  from a b inherited c1 c2 d e f show ?thesis by blast
qed

text \<open>
  C4 (protocols do not interfere). For two different protocol keys A and B, a registration
  under B, whatever the subtype id, leaves the sub-table of A as it was, so resolving A on
  any record gives the same outcome before and after. With one subtype id \<open>x\<close> registered
  under both, resolving A constructs the class registered under A and resolving B the
  class registered under B, each on the record: instances of the one and of the other
  around the record, for classes that inherit the constructor of \<open>ImplBase\<close>.
\<close>

theorem capabilities_do_not_interfere:
  assumes "protocolKeyA \<noteq> protocolKeyB"
  shows
    "implMap (registerImpl protocolKeyB x implB st) protocolKeyA = implMap st protocolKeyA \<and>
     implMap (snd (generateRegisterImpl protocolKeyB implB st)) protocolKeyA
       = implMap st protocolKeyA \<and>
     fst (getImpl protocolKeyA subTypingKey obj (registerImpl protocolKeyB x implB st))
       = fst (getImpl protocolKeyA subTypingKey obj st) \<and>
     (js_get (heap st obj) subTypingKey = x \<and>
      st' = registerImpl protocolKeyB x implB (registerImpl protocolKeyA x implA st) \<longrightarrow>
        getImpl protocolKeyA subTypingKey obj st' = new implA obj st' \<and>
        getImpl protocolKeyB subTypingKey obj st' = new implB obj st' \<and>
        (construct implA = ImplBase_constructor \<longrightarrow>
           fst (getImpl protocolKeyA subTypingKey obj st') = Inr \<lparr>cls = implA, v = obj\<rparr>) \<and>
        (construct implB = ImplBase_constructor \<longrightarrow>
           fst (getImpl protocolKeyB subTypingKey obj st') = Inr \<lparr>cls = implB, v = obj\<rparr>))"
proof (intro conjI impI)
  show frame: "implMap (registerImpl protocolKeyB x implB st) protocolKeyA = implMap st protocolKeyA"
    using assms by (simp add: implMap_registerImpl_other)
  show "implMap (snd (generateRegisterImpl protocolKeyB implB st)) protocolKeyA
       = implMap st protocolKeyA"
    using assms by (simp add: generateRegisterImpl_def implMap_registerImpl_other)
  show "fst (getImpl protocolKeyA subTypingKey obj (registerImpl protocolKeyB x implB st))
       = fst (getImpl protocolKeyA subTypingKey obj st)"
    using frame by (rule fst_getImpl_cong) (simp add: heap_registerImpl)
next
  assume h: "js_get (heap st obj) subTypingKey = x \<and>
      st' = registerImpl protocolKeyB x implB (registerImpl protocolKeyA x implA st)"
  from h have st': "st' = registerImpl protocolKeyB x implB (registerImpl protocolKeyA x implA st)"
    by blast
  from h have get: "js_get (heap st' obj) subTypingKey = x"
    by (simp add: heap_registerImpl)
  have "lookup st' protocolKeyA x = Some implA"
    unfolding st' using assms by (simp add: lookup_registerImpl)
  then have "lookup st' protocolKeyA (js_get (heap st' obj) subTypingKey) = Some implA"
    unfolding get .
  then show hitA: "getImpl protocolKeyA subTypingKey obj st' = new implA obj st'"
    by (rule getImpl_found)
  have "lookup st' protocolKeyB x = Some implB"
    unfolding st' by (simp add: lookup_registerImpl)
  then have "lookup st' protocolKeyB (js_get (heap st' obj) subTypingKey) = Some implB"
    unfolding get .
  then show hitB: "getImpl protocolKeyB subTypingKey obj st' = new implB obj st'"
    by (rule getImpl_found)
  {
    assume "construct implA = ImplBase_constructor"
    then have "new implA obj st' = (Inr \<lparr>cls = implA, v = obj\<rparr>, st')"
      by (rule new_inherited)
    with hitA show "fst (getImpl protocolKeyA subTypingKey obj st') = Inr \<lparr>cls = implA, v = obj\<rparr>"
      by simp
  }
  {
    assume "construct implB = ImplBase_constructor"
    then have "new implB obj st' = (Inr \<lparr>cls = implB, v = obj\<rparr>, st')"
      by (rule new_inherited)
    with hitB show "fst (getImpl protocolKeyB subTypingKey obj st') = Inr \<lparr>cls = implB, v = obj\<rparr>"
      by simp
  }
qed

text \<open>
  The fourth test of the suite: \<open>'array-obj'\<close> under \<open>Listable\<close> and under \<open>Printable\<close>.
\<close>

theorem capabilities_do_not_interfere_witness:
  "listableKey \<noteq> printableKey \<and>
   js_get (heap (initial testHeap :: string list state) 0) sKey = JSString ''array-obj'' \<and>
   construct ImplListableForArrayObj = ImplBase_constructor \<and>
   construct ImplPrintableForArrayObj = ImplBase_constructor \<and>
   fst (getImpl listableKey sKey 0
          (registerImpl printableKey (JSString ''array-obj'') ImplPrintableForArrayObj
             (registerImpl listableKey (JSString ''array-obj'') ImplListableForArrayObj
                (initial testHeap))))
     = Inr \<lparr>cls = ImplListableForArrayObj, v = 0\<rparr> \<and>
   fst (getImpl printableKey sKey 0
          (registerImpl printableKey (JSString ''array-obj'') ImplPrintableForArrayObj
             (registerImpl listableKey (JSString ''array-obj'') ImplListableForArrayObj
                (initial testHeap))))
     = Inr \<lparr>cls = ImplPrintableForArrayObj, v = 0\<rparr>"
proof -
  let ?st = "registerImpl printableKey (JSString ''array-obj'') ImplPrintableForArrayObj
             (registerImpl listableKey (JSString ''array-obj'') ImplListableForArrayObj
                (initial testHeap))"
  have a: "listableKey \<noteq> printableKey"
    by (simp add: listableKey_def printableKey_def)
  have b: "js_get (heap (initial testHeap :: string list state) 0) sKey = JSString ''array-obj''"
    by (simp add: ex_defs)
  have c: "construct ImplListableForArrayObj = ImplBase_constructor"
    by (simp add: ImplListableForArrayObj_def)
  have d: "construct ImplPrintableForArrayObj = ImplBase_constructor"
    by (simp add: ImplPrintableForArrayObj_def)
  from b c d capabilities_do_not_interfere [OF a, of "JSString ''array-obj''"
      ImplPrintableForArrayObj "initial testHeap" sKey 0 ?st ImplListableForArrayObj]
  have "fst (getImpl listableKey sKey 0 ?st) = Inr \<lparr>cls = ImplListableForArrayObj, v = 0\<rparr> \<and>
        fst (getImpl printableKey sKey 0 ?st) = Inr \<lparr>cls = ImplPrintableForArrayObj, v = 0\<rparr>"
    by blast
  with a b c d show ?thesis by blast
qed

text \<open>
  C5 (a class without \<open>subtypeId\<close> is rejected at once). For a class whose static
  \<open>subtypeId\<close> is undefined, the generated registration function throws the
  "must have static property subtypeId" error, and the state at the throw, table
  included, is the state before the call.
\<close>

theorem malformed_descriptor_rejected:
  "subtypeId impl = JSUndefined \<Longrightarrow>
   generateRegisterImpl protocolKey impl st = (Inl SubtypeIdMissing, st)"
  by (simp add: generateRegisterImpl_def)

text \<open>A class that declares no \<open>subtypeId\<close>, offered after the modules are loaded.\<close>

theorem malformed_descriptor_rejected_witness:
  "subtypeId \<lparr>className = ''ImplListableForNothing'', subtypeId = JSUndefined,
              construct = ImplBase_constructor, methods = [''list'']\<rparr> = JSUndefined \<and>
   generateRegisterImpl listableKey
     \<lparr>className = ''ImplListableForNothing'', subtypeId = JSUndefined,
      construct = ImplBase_constructor, methods = [''list'']\<rparr>
     loaded
     = (Inl SubtypeIdMissing, loaded)"
proof -
  have a: "subtypeId \<lparr>className = ''ImplListableForNothing'', subtypeId = JSUndefined,
              construct = ImplBase_constructor, methods = [''list'']\<rparr> = JSUndefined"
    by simp
  from a malformed_descriptor_rejected [OF a, of listableKey loaded]
  show ?thesis by blast
qed

text \<open>
  C6 (\<open>registerImpl\<close> always succeeds). For every protocol key, subtype id and class, the
  function, which has no failing branch, yields a state in which the class is stored under
  the pair; a sub-table that did not exist is created, holding this one entry; every other
  pair keeps what it had; and the heap, which is everything outside the table, is as it
  was. Nothing is returned but the state.
\<close>

theorem registerImpl_total:
  "lookup (registerImpl protocolKey subTypeId impl st) protocolKey subTypeId = Some impl \<and>
   (implMap st protocolKey = None \<longrightarrow>
      implMap (registerImpl protocolKey subTypeId impl st) protocolKey
        = Some [subTypeId \<mapsto> impl]) \<and>
   (\<forall>p s. (p, s) \<noteq> (protocolKey, subTypeId) \<longrightarrow>
      lookup (registerImpl protocolKey subTypeId impl st) p s = lookup st p s) \<and>
   heap (registerImpl protocolKey subTypeId impl st) = heap st"
  by (simp add: lookup_registerImpl heap_registerImpl) (simp add: registerImpl_def)

text \<open>The first registration of all, into the empty table.\<close>

theorem registerImpl_total_witness:
  "implMap (initial testHeap :: string list state) listableKey = None \<and>
   (printableKey, JSString ''array-obj'') \<noteq> (listableKey, JSString ''array-obj'') \<and>
   lookup (registerImpl listableKey (JSString ''array-obj'') ImplListableForArrayObj
             (initial testHeap))
     listableKey (JSString ''array-obj'') = Some ImplListableForArrayObj \<and>
   implMap (registerImpl listableKey (JSString ''array-obj'') ImplListableForArrayObj
              (initial testHeap))
     listableKey = Some [JSString ''array-obj'' \<mapsto> ImplListableForArrayObj] \<and>
   lookup (registerImpl listableKey (JSString ''array-obj'') ImplListableForArrayObj
             (initial testHeap))
     printableKey (JSString ''array-obj'') = None \<and>
   heap (registerImpl listableKey (JSString ''array-obj'') ImplListableForArrayObj
           (initial testHeap)) = testHeap"
proof -
  have a: "implMap (initial testHeap :: string list state) listableKey = None"
    by (simp add: ex_defs)
  have b: "(printableKey, JSString ''array-obj'') \<noteq> (listableKey, JSString ''array-obj'')"
    by (simp add: ex_defs)
  have c: "lookup (initial testHeap :: string list state) printableKey (JSString ''array-obj'')
      = None"
    by (simp add: ex_defs)
  have d: "heap (initial testHeap :: string list state) = testHeap"
    by (simp add: initial_def)
  from a b c d registerImpl_total [of listableKey "JSString ''array-obj''"
      ImplListableForArrayObj "initial testHeap"]
  show ?thesis by simp
qed

text \<open>
  C7 (the table only grows). The table is empty at the start. A pair that has an entry
  before a call of \<open>registerImpl\<close> has one after it, and a protocol key that has a
  sub-table keeps one; the same holds across every sequence of calls a program can make,
  failed registrations and resolutions included.
\<close>

theorem registry_grows_monotonically:
  "implMap (initial h) = Map.empty \<and>
   (lookup st p s \<noteq> None \<longrightarrow> lookup (registerImpl protocolKey subTypeId impl st) p s \<noteq> None) \<and>
   (implMap st p \<noteq> None \<longrightarrow> implMap (registerImpl protocolKey subTypeId impl st) p \<noteq> None) \<and>
   (lookup st p s \<noteq> None \<longrightarrow> lookup (run cs st) p s \<noteq> None) \<and>
   (implMap st p \<noteq> None \<longrightarrow> implMap (run cs st) p \<noteq> None)"
proof (intro conjI impI)
  show "implMap (initial h) = Map.empty"
    by (simp add: initial_def)
next
  assume "lookup st p s \<noteq> None"
  then show "lookup (registerImpl protocolKey subTypeId impl st) p s \<noteq> None"
    by (simp add: lookup_registerImpl)
next
  assume "implMap st p \<noteq> None"
  then show "implMap (registerImpl protocolKey subTypeId impl st) p \<noteq> None"
    by (rule implMap_registerImpl_mono)
next
  assume "lookup st p s \<noteq> None"
  then show "lookup (run cs st) p s \<noteq> None"
    by (rule lookup_run_mono)
next
  assume "implMap st p \<noteq> None"
  then show "implMap (run cs st) p \<noteq> None"
    by (rule implMap_run_mono)
qed

text \<open>
  The entry for \<open>'array-obj'\<close> under \<open>Listable\<close> outlives a second registration, a
  replacement of its class, a registration under another protocol and a failed resolution.
\<close>

theorem registry_grows_monotonically_witness:
  "lookup (registerImpl listableKey (JSString ''array-obj'') ImplListableForArrayObj
             (initial testHeap))
     listableKey (JSString ''array-obj'') \<noteq> None \<and>
   implMap (registerImpl listableKey (JSString ''array-obj'') ImplListableForArrayObj
              (initial testHeap))
     listableKey \<noteq> None \<and>
   lookup (registerImpl listableKey (JSString ''record-obj'') ImplListableForRecordObj
             (registerImpl listableKey (JSString ''array-obj'') ImplListableForArrayObj
                (initial testHeap)))
     listableKey (JSString ''array-obj'') \<noteq> None \<and>
   lookup (run [Register listableKey ImplPrintableForArrayObj,
                Register printableKey ImplPrintableForArrayObj,
                Resolve listableKey sKey 2]
             (registerImpl listableKey (JSString ''array-obj'') ImplListableForArrayObj
                (initial testHeap)))
     listableKey (JSString ''array-obj'') \<noteq> None \<and>
   implMap (run [Register listableKey ImplPrintableForArrayObj,
                 Register printableKey ImplPrintableForArrayObj,
                 Resolve listableKey sKey 2]
              (registerImpl listableKey (JSString ''array-obj'') ImplListableForArrayObj
                 (initial testHeap)))
     listableKey \<noteq> None"
proof -
  let ?st = "registerImpl listableKey (JSString ''array-obj'') ImplListableForArrayObj
               (initial testHeap)"
  have a: "lookup ?st listableKey (JSString ''array-obj'') \<noteq> None"
    by (simp add: ex_defs)
  have b: "implMap ?st listableKey \<noteq> None"
    by (simp add: ex_defs)
  from a b registry_grows_monotonically [of testHeap ?st listableKey "JSString ''array-obj''"
      listableKey "JSString ''record-obj''" ImplListableForRecordObj
      "[Register listableKey ImplPrintableForArrayObj,
        Register printableKey ImplPrintableForArrayObj,
        Resolve listableKey sKey 2]"]
  show ?thesis by blast
qed

text \<open>
  C8 (resolution reads only, and copies nothing), as the code has it. \<open>getImpl\<close> itself
  writes nothing and copies nothing. When the table has no class for the record's
  discriminant, the call throws and the state, table and heap, is as it was. When it has
  one, the call is \<open>new impl(obj)\<close> and nothing more: the class's constructor receives the
  very reference that was passed in, and what the instance wraps and what becomes of the
  heap is the constructor's doing. For a class that inherits the constructor of
  \<open>ImplBase\<close>, as every class of the repository does, the state is as it was and the
  instance's \<open>v\<close> is the reference passed in. Nothing of the record but the discriminant
  field is looked at: when the classes concerned inherit that constructor, two records
  that agree on the field get the same error or an instance of the same class.
\<close>

theorem getImpl_read_only:
  "(lookup st protocolKey (js_get (heap st obj) subTypingKey) = None \<longrightarrow>
      snd (getImpl protocolKey subTypingKey obj st) = st \<and>
      (\<exists>e. fst (getImpl protocolKey subTypingKey obj st) = Inl e)) \<and>
   (lookup st protocolKey (js_get (heap st obj) subTypingKey) = Some impl \<longrightarrow>
      getImpl protocolKey subTypingKey obj st = new impl obj st \<and>
      (construct impl = ImplBase_constructor \<longrightarrow>
         snd (getImpl protocolKey subTypingKey obj st) = st \<and>
         fst (getImpl protocolKey subTypingKey obj st) = Inr \<lparr>cls = impl, v = obj\<rparr> \<and>
         v \<lparr>cls = impl, v = obj\<rparr> = obj)) \<and>
   (js_get (heap st obj) subTypingKey = js_get (heap st obj') subTypingKey \<and>
    (\<forall>c. lookup st protocolKey (js_get (heap st obj) subTypingKey) = Some c \<longrightarrow>
           construct c = ImplBase_constructor) \<longrightarrow>
      map_sum id cls (fst (getImpl protocolKey subTypingKey obj st))
        = map_sum id cls (fst (getImpl protocolKey subTypingKey obj' st)))"
proof (intro conjI impI)
  assume miss: "lookup st protocolKey (js_get (heap st obj) subTypingKey) = None"
  then show "snd (getImpl protocolKey subTypingKey obj st) = st"
    by (rule getImpl_missed)
  from miss show "\<exists>e. fst (getImpl protocolKey subTypingKey obj st) = Inl e"
    by (auto simp add: getImpl_def lookup_def Let_def split: option.splits)
next
  assume "lookup st protocolKey (js_get (heap st obj) subTypingKey) = Some impl"
  then show hit: "getImpl protocolKey subTypingKey obj st = new impl obj st"
    by (rule getImpl_found)
  assume "construct impl = ImplBase_constructor"
  then have "new impl obj st = (Inr \<lparr>cls = impl, v = obj\<rparr>, st)"
    by (rule new_inherited)
  with hit have both: "getImpl protocolKey subTypingKey obj st = (Inr \<lparr>cls = impl, v = obj\<rparr>, st)"
    by simp
  from both show "snd (getImpl protocolKey subTypingKey obj st) = st"
    by simp
  from both show "fst (getImpl protocolKey subTypingKey obj st) = Inr \<lparr>cls = impl, v = obj\<rparr>"
    by simp
  show "v \<lparr>cls = impl, v = obj\<rparr> = obj"
    by simp
next
  assume h: "js_get (heap st obj) subTypingKey = js_get (heap st obj') subTypingKey \<and>
    (\<forall>c. lookup st protocolKey (js_get (heap st obj) subTypingKey) = Some c \<longrightarrow>
           construct c = ImplBase_constructor)"
  then have same: "js_get (heap st obj') subTypingKey = js_get (heap st obj) subTypingKey"
    by simp
  show "map_sum id cls (fst (getImpl protocolKey subTypingKey obj st))
        = map_sum id cls (fst (getImpl protocolKey subTypingKey obj' st))"
  proof (cases "lookup st protocolKey (js_get (heap st obj) subTypingKey)")
    case None
    then show ?thesis
      by (auto simp add: getImpl_def lookup_def Let_def same split: option.splits)
  next
    case (Some c)
    with h have inherited: "construct c = ImplBase_constructor"
      by blast
    from Some have "getImpl protocolKey subTypingKey obj st = new c obj st"
      by (rule getImpl_found)
    moreover from Some have "lookup st protocolKey (js_get (heap st obj') subTypingKey) = Some c"
      by (simp add: same)
    then have "getImpl protocolKey subTypingKey obj' st = new c obj' st"
      by (rule getImpl_found)
    ultimately show ?thesis
      by (simp add: new_inherited [OF inherited])
  qed
qed

text \<open>
  A record \<open>{type: 'array-obj'}\<close> with no \<open>ary\<close> resolves as \<open>ArrayObj.create([1, 2, 3])\<close>
  does; a failed resolution changes nothing either.
\<close>

theorem getImpl_read_only_witness:
  "lookup loaded listableKey (js_get (heap loaded 2) sKey) = None \<and>
   snd (getImpl listableKey sKey 2 loaded) = loaded \<and>
   lookup (exec (Store 4 [''type'' \<mapsto> JSString ''array-obj'']) loaded) listableKey
     (js_get (heap (exec (Store 4 [''type'' \<mapsto> JSString ''array-obj'']) loaded) 0) sKey)
     = Some ImplListableForArrayObj \<and>
   construct ImplListableForArrayObj = ImplBase_constructor \<and>
   js_get (heap (exec (Store 4 [''type'' \<mapsto> JSString ''array-obj'']) loaded) 0) sKey
     = js_get (heap (exec (Store 4 [''type'' \<mapsto> JSString ''array-obj'']) loaded) 4) sKey \<and>
   fst (getImpl listableKey sKey 0 (exec (Store 4 [''type'' \<mapsto> JSString ''array-obj'']) loaded))
     = Inr \<lparr>cls = ImplListableForArrayObj, v = 0\<rparr> \<and>
   snd (getImpl listableKey sKey 0 (exec (Store 4 [''type'' \<mapsto> JSString ''array-obj'']) loaded))
     = exec (Store 4 [''type'' \<mapsto> JSString ''array-obj'']) loaded \<and>
   map_sum id cls
     (fst (getImpl listableKey sKey 0 (exec (Store 4 [''type'' \<mapsto> JSString ''array-obj'']) loaded)))
     = map_sum id cls
         (fst (getImpl listableKey sKey 4
                 (exec (Store 4 [''type'' \<mapsto> JSString ''array-obj'']) loaded)))"
proof -
  let ?st = "exec (Store 4 [''type'' \<mapsto> JSString ''array-obj'']) loaded"
  have a: "lookup loaded listableKey (js_get (heap loaded 2) sKey) = None"
    by (simp add: ex_defs)
  have b: "lookup ?st listableKey (js_get (heap ?st 0) sKey) = Some ImplListableForArrayObj"
    by (simp add: ex_defs)
  have c: "construct ImplListableForArrayObj = ImplBase_constructor"
    by (simp add: ImplListableForArrayObj_def)
  have d: "js_get (heap ?st 0) sKey = js_get (heap ?st 4) sKey"
    by (simp add: ex_defs)
  from b c have e: "\<forall>c. lookup ?st listableKey (js_get (heap ?st 0) sKey) = Some c \<longrightarrow>
           construct c = ImplBase_constructor"
    by simp
  from a getImpl_read_only [of loaded listableKey 2 sKey]
  have f: "snd (getImpl listableKey sKey 2 loaded) = loaded"
    by blast
  from b c d e getImpl_read_only [of ?st listableKey 0 sKey ImplListableForArrayObj 4]
  have g: "fst (getImpl listableKey sKey 0 ?st) = Inr \<lparr>cls = ImplListableForArrayObj, v = 0\<rparr> \<and>
     snd (getImpl listableKey sKey 0 ?st) = ?st \<and>
     map_sum id cls (fst (getImpl listableKey sKey 0 ?st))
       = map_sum id cls (fst (getImpl listableKey sKey 4 ?st))"
    by blast
  from a b c d f g show ?thesis by blast
qed

text \<open>
  Without the condition on the constructor the statement fails.
  \<open>ImplListableForArrayObjCopy\<close> passes a copy of the record to \<open>super\<close>; the registration
  function accepts it for \<open>'array-obj'\<close>, and \<open>getImpl\<close> on the record at address 0 then
  returns an instance around the copy at address 5, in a state that is not the one before
  the call.
\<close>

theorem getImpl_read_only_counterexample:
  "fst (generateRegisterImpl listableKey ImplListableForArrayObjCopy (initial testHeap))
     = Inr () \<and>
   fst (getImpl listableKey sKey 0
          (snd (generateRegisterImpl listableKey ImplListableForArrayObjCopy
                  (initial testHeap))))
     = Inr \<lparr>cls = ImplListableForArrayObjCopy, v = 5\<rparr> \<and>
   v \<lparr>cls = ImplListableForArrayObjCopy, v = 5\<rparr> \<noteq> 0 \<and>
   snd (getImpl listableKey sKey 0
          (snd (generateRegisterImpl listableKey ImplListableForArrayObjCopy
                  (initial testHeap))))
     \<noteq> snd (generateRegisterImpl listableKey ImplListableForArrayObjCopy (initial testHeap))"
proof -
  let ?st = "snd (generateRegisterImpl listableKey ImplListableForArrayObjCopy
                    (initial testHeap))"
  have a: "fst (generateRegisterImpl listableKey ImplListableForArrayObjCopy (initial testHeap))
     = Inr ()"
    by (simp add: generateRegisterImpl_def ImplListableForArrayObjCopy_def)
  have b: "getImpl listableKey sKey 0 ?st
     = (Inr \<lparr>cls = ImplListableForArrayObjCopy, v = 5\<rparr>,
        ?st\<lparr>heap := testHeap(5 := testHeap 0)\<rparr>)"
    by (simp add: ex_defs ImplListableForArrayObjCopy_def copying_constructor_def)
  have c: "heap (?st\<lparr>heap := testHeap(5 := testHeap 0)\<rparr>) 5 ''type'' = Some (JSString ''array-obj'')"
    by (simp add: testHeap_def)
  have d: "heap ?st 5 ''type'' = None"
    by (simp add: ex_defs ImplListableForArrayObjCopy_def)
  from c d have e: "?st\<lparr>heap := testHeap(5 := testHeap 0)\<rparr> \<noteq> ?st"
    by (metis option.distinct(1))
  from a b e show ?thesis by simp
qed

text \<open>
  C9 (a falsy \<open>subtypeId\<close> is rejected). The number 0 and the empty string are falsy.
  For a class whose \<open>subtypeId\<close> is falsy the generated registration function throws the
  same error, leaving the same state, as for that class with no \<open>subtypeId\<close> at all; and
  in no state a program can reach from the empty table is such a class in the table.
\<close>

theorem falsy_subtypeId_rejected:
  "js_not (JSNumber (Finite 0)) \<and> js_not (JSString '''') \<and>
   (js_not (subtypeId impl) \<longrightarrow>
      generateRegisterImpl protocolKey impl st = (Inl SubtypeIdMissing, st) \<and>
      generateRegisterImpl protocolKey impl st
        = generateRegisterImpl protocolKey (impl\<lparr>subtypeId := JSUndefined\<rparr>) st \<and>
      lookup (run cs (initial h)) p s \<noteq> Some impl)"
proof (intro conjI impI)
  show "js_not (JSNumber (Finite 0))" by simp
  show "js_not (JSString '''')" by simp
next
  assume "js_not (subtypeId impl)"
  then show "generateRegisterImpl protocolKey impl st = (Inl SubtypeIdMissing, st)"
    by (simp add: generateRegisterImpl_def)
next
  assume "js_not (subtypeId impl)"
  then show "generateRegisterImpl protocolKey impl st
        = generateRegisterImpl protocolKey (impl\<lparr>subtypeId := JSUndefined\<rparr>) st"
    by (simp add: generateRegisterImpl_def)
next
  assume falsy: "js_not (subtypeId impl)"
  have "keys_declared (run cs (initial h) :: 'a state)"
    by (rule keys_declared_run) (rule keys_declared_initial)
  with falsy show "lookup (run cs (initial h)) p s \<noteq> Some impl"
    by (auto simp add: keys_declared_def)
qed

text \<open>A class declaring \<open>subtypeId = 0\<close> and one declaring \<open>subtypeId = ''\<close>.\<close>

theorem falsy_subtypeId_rejected_witness:
  "js_not (subtypeId \<lparr>className = ''ImplListableForZero'', subtypeId = JSNumber (Finite 0),
                      construct = ImplBase_constructor, methods = [''list'']\<rparr>) \<and>
   js_not (subtypeId \<lparr>className = ''ImplListableForEmpty'', subtypeId = JSString '''',
                      construct = ImplBase_constructor, methods = [''list'']\<rparr>) \<and>
   generateRegisterImpl listableKey
     \<lparr>className = ''ImplListableForZero'', subtypeId = JSNumber (Finite 0),
      construct = ImplBase_constructor, methods = [''list'']\<rparr> loaded
     = (Inl SubtypeIdMissing, loaded) \<and>
   generateRegisterImpl listableKey
     \<lparr>className = ''ImplListableForEmpty'', subtypeId = JSString '''',
      construct = ImplBase_constructor, methods = [''list'']\<rparr> loaded
     = (Inl SubtypeIdMissing, loaded) \<and>
   lookup
     (run [Register listableKey
             \<lparr>className = ''ImplListableForZero'', subtypeId = JSNumber (Finite 0),
              construct = ImplBase_constructor, methods = [''list'']\<rparr>]
        (initial testHeap))
     listableKey (JSNumber (Finite 0))
     \<noteq> Some \<lparr>className = ''ImplListableForZero'', subtypeId = JSNumber (Finite 0),
               construct = ImplBase_constructor, methods = [''list'']\<rparr>"
proof -
  let ?zero = "\<lparr>className = ''ImplListableForZero'', subtypeId = JSNumber (Finite 0),
                construct = ImplBase_constructor, methods = [''list'']\<rparr>"
  let ?empty = "\<lparr>className = ''ImplListableForEmpty'', subtypeId = JSString '''',
                 construct = ImplBase_constructor, methods = [''list'']\<rparr>"
  have a: "js_not (subtypeId ?zero)"
    by simp
  have b: "js_not (subtypeId ?empty)"
    by simp
  from a b
    falsy_subtypeId_rejected [of ?zero listableKey loaded "[Register listableKey ?zero]"
      testHeap listableKey "JSNumber (Finite 0)"]
    falsy_subtypeId_rejected [of ?empty listableKey loaded]
  show ?thesis by blast
qed

text \<open>
  C10 (a record without the discriminant field). A record that has no property of the
  discriminant's name, neither its own nor inherited, reads as \<open>undefined\<close> there. In a
  state a program can reach from the empty table, when the protocol has a registered
  class and the value read is \<open>undefined\<close>, \<open>getImpl\<close> throws: the \<open>TypeError\<close> of
  \<open>undefined.toString()\<close>, raised while the message is built, and not the
  "Implementation ... not found" error. The state is as it was.
\<close>

theorem missing_discriminant_TypeError:
  assumes "st = run cs (initial h)"
    and "lookup st protocolKey subTypeId = Some impl"
  shows
    "(subTypingKey \<notin> dom (heap st obj) \<and> subTypingKey \<notin> dom Object_prototype \<longrightarrow>
        js_get (heap st obj) subTypingKey = JSUndefined) \<and>
     (js_get (heap st obj) subTypingKey = JSUndefined \<longrightarrow>
        getImpl protocolKey subTypingKey obj st = (Inl (TypeError_toString JSUndefined), st)) \<and>
     TypeError_toString JSUndefined \<noteq> ImplementationNotFound x"
proof (intro conjI impI)
  assume "subTypingKey \<notin> dom (heap st obj) \<and> subTypingKey \<notin> dom Object_prototype"
  then show "js_get (heap st obj) subTypingKey = JSUndefined"
    by (auto simp add: js_get_def dom_def)
next
  assume undef: "js_get (heap st obj) subTypingKey = JSUndefined"
  from assms(2) obtain subtypeMap where sub: "implMap st protocolKey = Some subtypeMap"
    by (auto simp add: lookup_def split: option.splits)
  have "keys_declared st"
    unfolding assms(1) by (rule keys_declared_run) (rule keys_declared_initial)
  then have "lookup st protocolKey JSUndefined = None"
    by (rule keys_declared_falsy) simp
  with sub have "subtypeMap JSUndefined = None"
    by (simp add: lookup_def)
  with sub undef
  show "getImpl protocolKey subTypingKey obj st = (Inl (TypeError_toString JSUndefined), st)"
    by (simp add: getImpl_def Let_def)
next
  show "TypeError_toString JSUndefined \<noteq> ImplementationNotFound x"
    by simp
qed

text \<open>A record \<open>{ary: ...}\<close> resolved under \<open>Listable\<close> after the modules are loaded.\<close>

theorem missing_discriminant_TypeError_witness:
  "loaded
     = run [Register listableKey ImplListableForArrayObj,
            Register printableKey ImplPrintableForArrayObj,
            Register listableKey ImplListableForRecordObj]
         (initial testHeap) \<and>
   lookup loaded listableKey (JSString ''array-obj'') = Some ImplListableForArrayObj \<and>
   sKey \<notin> dom (heap loaded 3) \<and>
   sKey \<notin> dom Object_prototype \<and>
   js_get (heap loaded 3) sKey = JSUndefined \<and>
   getImpl listableKey sKey 3 loaded = (Inl (TypeError_toString JSUndefined), loaded)"
proof -
  have a: "loaded
     = run [Register listableKey ImplListableForArrayObj,
            Register printableKey ImplPrintableForArrayObj,
            Register listableKey ImplListableForRecordObj]
         (initial testHeap)"
    by (rule loaded_def)
  have b: "lookup loaded listableKey (JSString ''array-obj'') = Some ImplListableForArrayObj"
    by (simp add: ex_defs)
  have c: "sKey \<notin> dom (heap loaded 3)"
    by (simp add: ex_defs)
  have d: "sKey \<notin> dom Object_prototype"
    by (simp add: sKey_def Object_prototype_def)
  from a b c d missing_discriminant_TypeError [OF a b, of sKey 3]
  show ?thesis by blast
qed

text \<open>
  An inherited name is not a missing field: the same record read at \<open>constructor\<close> gives
  the function \<open>Object\<close>, and the error is the "Implementation ... not found" one.
\<close>

lemma inherited_name_is_read:
  "''constructor'' \<notin> dom (heap loaded 3) \<and>
   js_get (heap loaded 3) ''constructor'' = JSBuiltin ''Object'' \<and>
   getImpl listableKey ''constructor'' 3 loaded
     = (Inl (ImplementationNotFound (JSBuiltin ''Object'')), loaded)"
  by (simp add: ex_defs)

end
